theory Spec2Isabelle
  imports Complex_Main
begin

unbundle bit_operations_syntax

section \<open>Configuration (src/config/dhcp.py)\<close>

text \<open>
  Python exceptions that the modelled code can raise.  \<open>AddressValueError\<close> and
  \<open>ValueError\<close> come from the standard \<open>ipaddress\<close> module, \<open>AttributeError\<close>
  from reading an attribute of \<open>None\<close>.
\<close>

datatype error =
    InvalidDHCPConfiguration
  | AddressValueError
  | ValueError
  | AttributeError
  | KeyError

text \<open>
  An \<open>ipaddress.IPv4Network\<close>: its network address and prefix length.  Addresses are
  Python integers; \<open>IPv4Address n\<close> raises unless \<open>0 \<le> n < 2^32\<close>.
\<close>

record IPv4Network =
  network_address :: int
  prefixlen :: nat

definition netmask :: "IPv4Network \<Rightarrow> int" where
  "netmask n = 2 ^ 32 - 2 ^ (32 - prefixlen n)"

definition broadcast_address :: "IPv4Network \<Rightarrow> int" where
  "broadcast_address n = network_address n + (2 ^ (32 - prefixlen n) - 1)"

text \<open>\<open>addr in network\<close> for an IPv4 address: the masked address is the network address.\<close>

definition net_contains :: "IPv4Network \<Rightarrow> int \<Rightarrow> bool" where
  "net_contains n ip = (ip AND netmask n = network_address n)"

definition IPv4Address :: "int \<Rightarrow> error + int" where
  "IPv4Address a = (if 0 \<le> a \<and> a < 2 ^ 32 then Inr a else Inl AddressValueError)"

text \<open>
  The dataclass \<open>DHCPServerConfiguration\<close>.  The field \<open>range\<close> is named
  \<open>dhcp_range\<close> here.  \<open>router\<close> holds what \<open>ipaddress.IPv4Address(self.router)\<close>
  yields for the router string: \<open>None\<close> when that constructor raises.
  \<open>server_ip\<close> is \<open>None\<close> by default, as in the source.
\<close>

record DHCPServerConfiguration =
  network :: IPv4Network
  dhcp_range :: "int \<times> int"
  router :: "int option"
  domain :: string
  lease_time :: int
  domain_name_servers :: "string list"
  server_ip :: "int option"

definition dhcp_range_len :: "DHCPServerConfiguration \<Rightarrow> int" where
  "dhcp_range_len c = snd (dhcp_range c) - fst (dhcp_range c)"

definition check :: "DHCPServerConfiguration \<Rightarrow> error + unit" where
  "check c =
    (case server_ip c of
       None \<Rightarrow> Inl InvalidDHCPConfiguration
     | Some _ \<Rightarrow>
        (case IPv4Address (fst (dhcp_range c)) of
           Inl x \<Rightarrow> Inl x
         | Inr s \<Rightarrow>
            (case IPv4Address (snd (dhcp_range c)) of
               Inl x \<Rightarrow> Inl x
             | Inr e \<Rightarrow>
                if \<not> net_contains (network c) s \<or> \<not> net_contains (network c) e
                then Inl InvalidDHCPConfiguration
                else if dhcp_range_len c < 2 then Inl InvalidDHCPConfiguration
                else (case router c of
                        None \<Rightarrow> Inl AddressValueError
                      | Some r \<Rightarrow> Inr ()))))"

text \<open>
  \<open>in_range\<close>: \<open>ipaddress.ip_address(ip) in self.network\<close>.  \<open>ip_address\<close> of an
  integer gives an IPv4 address below \<open>2^32\<close>, an IPv6 address below \<open>2^128\<close> (never
  a member of an IPv4 network) and raises \<open>ValueError\<close> otherwise.
\<close>

definition in_range :: "DHCPServerConfiguration \<Rightarrow> int \<Rightarrow> error + bool" where
  "in_range c ip =
    (if 0 \<le> ip \<and> ip < 2 ^ 32 then Inr (net_contains (network c) ip)
     else if 0 \<le> ip \<and> ip < 2 ^ 128 then Inr False
     else Inl ValueError)"

text \<open>Dotted-quad notation, for readable examples.\<close>

definition ipv4 :: "int \<Rightarrow> int \<Rightarrow> int \<Rightarrow> int \<Rightarrow> int" where
  "ipv4 a b c d = ((a * 256 + b) * 256 + c) * 256 + d"

text \<open>
  The configuration of Scenario A: network 10.47.0.0/24, allocation range
  [10.47.0.1, 10.47.0.2], server address 10.47.0.254.
\<close>

definition scenario_A_conf :: DHCPServerConfiguration where
  "scenario_A_conf =
    \<lparr> network = \<lparr> network_address = ipv4 10 47 0 0, prefixlen = 24 \<rparr>,
      dhcp_range = (ipv4 10 47 0 1, ipv4 10 47 0 2),
      router = Some (ipv4 10 47 0 254),
      domain = ''local'',
      lease_time = 300,
      domain_name_servers = [''1.1.1.1'', ''8.8.8.8'', ''9.9.9.9''],
      server_ip = Some (ipv4 10 47 0 254) \<rparr>"

section \<open>Packets and options (the contract of the codec)\<close>

text \<open>
  Python values that flow through the engine untyped: \<open>None\<close>, integers, strings and
  \<open>ipaddress.IPv4Address\<close> objects.  Equality of two such values is Python's \<open>==\<close>:
  an address never equals an integer or a string.
\<close>

datatype pyval = PNone | PInt int | PStr string | PAddr int

type_synonym mac = string

text \<open>
  An option of the codec: its code and its \<open>value\<close> dictionary.  An option list is
  looked up by code; \<open>dict_get\<close> is \<open>dict.get\<close>, which yields \<open>None\<close> for a
  missing key.
\<close>

type_synonym option_value = "(string \<times> pyval) list"
type_synonym OptionList = "(nat \<times> option_value) list"

definition by_code :: "nat \<Rightarrow> OptionList \<Rightarrow> option_value option" where
  "by_code c opts = map_of opts c"

definition dict_get :: "option_value \<Rightarrow> string \<Rightarrow> pyval" where
  "dict_get v k = (case map_of v k of None \<Rightarrow> PNone | Some x \<Rightarrow> x)"

definition short_value_to_object :: "nat \<Rightarrow> string \<Rightarrow> pyval \<Rightarrow> nat \<times> option_value" where
  "short_value_to_object c k x = (c, [(k, x)])"

record DHCPPacket =
  op :: string
  xid :: int
  secs :: int
  ciaddr :: pyval
  yiaddr :: pyval
  siaddr :: pyval
  giaddr :: pyval
  chaddr :: mac
  options :: OptionList

text \<open>
  The codec's constructors \<open>DHCPPacket.Offer\<close> and \<open>DHCPPacket.Ack\<close>: a reply
  with the given transaction id, seconds and \<open>yiaddr\<close>, whose option list is the given
  one with the message type (option 53) inserted in front.
\<close>

definition reply_packet :: "string \<Rightarrow> mac \<Rightarrow> int \<Rightarrow> int \<Rightarrow> pyval \<Rightarrow> OptionList \<Rightarrow> DHCPPacket" where
  "reply_packet ty m seconds tx_id yi option_list =
    \<lparr> op = ''BOOTREPLY'', xid = tx_id, secs = seconds,
      ciaddr = PAddr 0, yiaddr = yi, siaddr = PAddr 0, giaddr = PAddr 0,
      chaddr = m,
      options = short_value_to_object 53 ''dhcp_message_type'' (PStr ty) # option_list \<rparr>"

definition Offer :: "mac \<Rightarrow> int \<Rightarrow> int \<Rightarrow> pyval \<Rightarrow> OptionList \<Rightarrow> DHCPPacket" where
  "Offer = reply_packet ''DHCPOFFER''"

definition Ack :: "mac \<Rightarrow> int \<Rightarrow> int \<Rightarrow> pyval \<Rightarrow> OptionList \<Rightarrow> DHCPPacket" where
  "Ack = reply_packet ''DHCPACK''"

text \<open>The message type a packet carries in option 53 (\<open>None\<close> when it carries none).\<close>

definition message_type :: "DHCPPacket \<Rightarrow> pyval" where
  "message_type p =
    (case by_code 53 (options p) of None \<Rightarrow> PNone | Some v \<Rightarrow> dict_get v ''dhcp_message_type'')"

section \<open>The protocol engine (src/core/dhcp.py)\<close>

datatype DHCPMessages =
    DHCPDISCOVER | DHCPOFFER | DHCPREQUEST | DHCPDECLINE
  | DHCPACK | DHCPNAK | DHCPRELEASE | DHCPINFORM

text \<open>\<open>DHCPMessages[name]\<close>: the member of that name; \<open>None\<close> stands for \<open>KeyError\<close>.\<close>

definition DHCPMessages_getitem :: "pyval \<Rightarrow> DHCPMessages option" where
  "DHCPMessages_getitem x =
    (if x = PStr ''DHCPDISCOVER'' then Some DHCPDISCOVER
     else if x = PStr ''DHCPOFFER'' then Some DHCPOFFER
     else if x = PStr ''DHCPREQUEST'' then Some DHCPREQUEST
     else if x = PStr ''DHCPDECLINE'' then Some DHCPDECLINE
     else if x = PStr ''DHCPACK'' then Some DHCPACK
     else if x = PStr ''DHCPNAK'' then Some DHCPNAK
     else if x = PStr ''DHCPRELEASE'' then Some DHCPRELEASE
     else if x = PStr ''DHCPINFORM'' then Some DHCPINFORM
     else None)"

text \<open>
  A \<open>Session\<close>.  Clock readings are real numbers.  \<open>__init__\<close> reads the clock
  twice: once for \<open>start\<close>, once for \<open>timeout\<close>.  The field \<open>closed\<close> is named
  \<open>closed_flag\<close> here.
\<close>

record Session =
  start :: real
  packets :: "DHCPPacket list"
  timeout :: real
  closed_flag :: bool

definition Session_init :: "real \<Rightarrow> real \<Rightarrow> Session" where
  "Session_init t0 t1 = \<lparr> start = t0, packets = [], timeout = t1 + 30, closed_flag = False \<rparr>"

definition is_done :: "real \<Rightarrow> Session \<Rightarrow> bool" where
  "is_done now s = (closed_flag s \<or> timeout s < now)"

definition close :: "Session \<Rightarrow> Session" where
  "close s = s\<lparr> closed_flag := True \<rparr>"

text \<open>
  The lease store \<open>HostDatabase\<close> is not part of the sources at hand; the engine is
  modelled over any store.  A store has a state of type \<open>'h\<close> and the two operations
  the engine calls, each of which may change that state.  \<open>find_or_register\<close> takes
  the MAC address, the requested-IP hint and the hostname.
\<close>

record Host =
  ip :: pyval

record 'h HostDatabase =
  find_or_register :: "mac \<Rightarrow> pyval \<Rightarrow> pyval \<Rightarrow> 'h \<Rightarrow> pyval \<times> 'h"
  get :: "mac \<Rightarrow> 'h \<Rightarrow> Host option \<times> 'h"

text \<open>
  The server as the sessions see it: the option list and server address of its
  configuration, the state of the lease store, and \<open>sent\<close>, the packets handed to
  \<open>broadcast\<close> so far (oldest first).
\<close>

record 'h DHCPServer =
  conf_options :: OptionList
  conf_dhcp_server_ip :: pyval
  hosts :: 'h
  sent :: "DHCPPacket list"

text \<open>
  \<open>broadcast\<close> formats the packet's message type for the log, outside its \<open>try\<close>; all
  socket failures are caught inside it.  The attempt is recorded in \<open>sent\<close>.
\<close>

definition broadcast :: "DHCPPacket \<Rightarrow> 'h DHCPServer \<Rightarrow> error + 'h DHCPServer" where
  "broadcast p srv =
    (case by_code 53 (options p) of
       None \<Rightarrow> Inl AttributeError
     | Some v \<Rightarrow>
        (case map_of v ''dhcp_message_type'' of
           None \<Rightarrow> Inl KeyError
         | Some _ \<Rightarrow> Inr (srv\<lparr> sent := sent srv @ [p] \<rparr>)))"

text \<open>\<open>int(x)\<close> of a float truncates towards zero.\<close>

definition py_int :: "real \<Rightarrow> int" where
  "py_int x = (if 0 \<le> x then \<lfloor>x\<rfloor> else \<lceil>x\<rceil>)"

text \<open>
  \<open>send_offer\<close> tests the option objects it looks up for truth (\<open>if req_ip:\<close>,
  \<open>if hostname:\<close>): an option that is present counts as true, \<open>None\<close> as false.
  \<open>offer_hostname\<close> is the hostname it reads from option 12 (\<open>None\<close> without that
  option).  A store answer of \<open>0\<close> (\<open>ip == 0\<close>) ends \<open>send_offer\<close> without a reply.
\<close>

definition offer_hostname :: "DHCPPacket \<Rightarrow> pyval" where
  "offer_hostname packet =
    (case by_code 12 (options packet) of
       Some v \<Rightarrow> dict_get v ''hostname''
     | None \<Rightarrow> PNone)"

definition send_offer ::
  "'h HostDatabase \<Rightarrow> real \<Rightarrow> Session \<Rightarrow> DHCPPacket \<Rightarrow> 'h DHCPServer \<Rightarrow> error + 'h DHCPServer" where
  "send_offer db now s packet srv =
    (let m = chaddr packet;
         req_ip = (case by_code 50 (options packet) of
                     Some v \<Rightarrow> dict_get v ''requested_ip_address''
                   | None \<Rightarrow> ciaddr packet);
         hostname = offer_hostname packet;
         (ip_found, h) = find_or_register db m req_ip hostname (hosts srv);
         srv1 = srv\<lparr> hosts := h \<rparr>
     in if ip_found = PInt 0 then Inr srv1
        else broadcast
               ((Offer (chaddr packet) (py_int (now - start s)) (xid packet) ip_found
                   (conf_options srv1))\<lparr> siaddr := conf_dhcp_server_ip srv1 \<rparr>)
               srv1)"

text \<open>
  The packet \<open>send_nak\<close> builds: an \<open>Ack\<close> without options, whose server address
  and option list are then overwritten.
\<close>

definition nak_packet :: "real \<Rightarrow> Session \<Rightarrow> DHCPPacket \<Rightarrow> pyval \<Rightarrow> DHCPPacket" where
  "nak_packet now s packet srv_ip =
    (Ack (chaddr packet) (py_int (now - start s)) (xid packet) (yiaddr packet) [])
      \<lparr> siaddr := srv_ip,
        options := [short_value_to_object 53 ''dhcp_message_type'' (PStr ''DHCPNAK'')] \<rparr>"

definition send_nak ::
  "real \<Rightarrow> Session \<Rightarrow> DHCPPacket \<Rightarrow> 'h DHCPServer \<Rightarrow> error + 'h DHCPServer" where
  "send_nak now s packet srv =
    broadcast (nak_packet now s packet (conf_dhcp_server_ip srv)) srv"

definition send_ack ::
  "'h HostDatabase \<Rightarrow> real \<Rightarrow> Session \<Rightarrow> DHCPPacket \<Rightarrow> 'h DHCPServer \<Rightarrow> error + 'h DHCPServer" where
  "send_ack db now s packet srv =
    (let (host, h) = get db (chaddr packet) (hosts srv);
         srv1 = srv\<lparr> hosts := h \<rparr>
     in case host of
          None \<Rightarrow> send_nak now s packet srv1
        | Some hst \<Rightarrow>
           (case by_code 50 (options packet) of
              Some v \<Rightarrow>
                if ip hst \<noteq> dict_get v ''requested_ip_address''
                then send_nak now s packet srv1
                else broadcast
                       ((Ack (chaddr packet) (py_int (now - start s)) (xid packet) (ip hst)
                           (conf_options srv1))\<lparr> siaddr := conf_dhcp_server_ip srv1 \<rparr>)
                       srv1
            | None \<Rightarrow>
                broadcast
                  ((Ack (chaddr packet) (py_int (now - start s)) (xid packet) (ip hst)
                      (conf_options srv1))\<lparr> siaddr := conf_dhcp_server_ip srv1 \<rparr>)
                  srv1))"

text \<open>
  \<open>receive\<close> returns the server and the session as it leaves them.  Reading
  \<open>message.value\<close> when option 53 is missing raises \<open>AttributeError\<close>; a
  \<open>KeyError\<close> of the two look-ups is caught.
\<close>

definition receive ::
  "'h HostDatabase \<Rightarrow> real \<Rightarrow> Session \<Rightarrow> DHCPPacket \<Rightarrow> 'h DHCPServer
     \<Rightarrow> error + ('h DHCPServer \<times> Session)" where
  "receive db now s packet srv =
    (if closed_flag s then Inr (srv, s)
     else if op packet = ''BOOTREQUEST'' then
       (case by_code 53 (options packet) of
          None \<Rightarrow> Inl AttributeError
        | Some message \<Rightarrow>
           (case map_of message ''dhcp_message_type'' of
              None \<Rightarrow> Inr (srv, s)
            | Some name \<Rightarrow>
               (case DHCPMessages_getitem name of
                  None \<Rightarrow> Inr (srv, s)
                | Some DHCPDISCOVER \<Rightarrow> map_sum id (\<lambda>srv1. (srv1, s)) (send_offer db now s packet srv)
                | Some DHCPREQUEST \<Rightarrow> map_sum id (\<lambda>srv1. (srv1, s)) (send_ack db now s packet srv)
                | Some _ \<Rightarrow> Inr (srv, s))))
     else Inr (srv, s))"

text \<open>
  The sweep at the end of \<open>_worker\<close>: every session that \<open>is_done\<close> is closed and
  popped.  \<open>is_done\<close> reads the clock anew for each session; \<open>clk k\<close> is the reading
  taken for the session of transaction id \<open>k\<close>.
\<close>

definition sweep :: "(int \<Rightarrow> real) \<Rightarrow> (int \<rightharpoonup> Session) \<Rightarrow> (int \<rightharpoonup> Session)" where
  "sweep clk ss =
    (\<lambda>k. case ss k of
            None \<Rightarrow> None
          | Some s \<Rightarrow> if is_done (clk k) s then None else Some s)"

section \<open>The lease store\<close>

text \<open>
  Modelled from the spec: the lease store (\<open>HostDatabase\<close>, imported by the engine
  from \<open>dhcp.core.database\<close>) is missing from the sources.  The model follows the
  contract of the component design: \<open>find_or_allocate\<close> returns the IP of the lease
  held for the MAC address if there is one, refreshing its hostname and timestamp;
  otherwise it picks a free address of the configured range, the requested-IP hint if
  that lies in the range and is unassigned, else the first unassigned address in
  ascending order, and records the new lease; it returns \<open>None\<close> when the range is
  exhausted.  Leases are never deleted.
\<close>

record Lease =
  mac_address :: mac
  ip_address :: int
  hostname :: "string option"
  allocated_at :: real

type_synonym LeaseStore = "Lease list"

definition get_lease :: "LeaseStore \<Rightarrow> mac \<Rightarrow> Lease option" where
  "get_lease st m = find (\<lambda>l. mac_address l = m) st"

definition assigned :: "LeaseStore \<Rightarrow> int \<Rightarrow> bool" where
  "assigned st a = (a \<in> set (map ip_address st))"

definition next_free :: "int \<times> int \<Rightarrow> LeaseStore \<Rightarrow> int option" where
  "next_free r st = find (\<lambda>a. \<not> assigned st a) [fst r..snd r]"

definition pick_free :: "int \<times> int \<Rightarrow> int option \<Rightarrow> LeaseStore \<Rightarrow> int option" where
  "pick_free r hint st =
    (case hint of
       Some a \<Rightarrow>
         if fst r \<le> a \<and> a \<le> snd r \<and> \<not> assigned st a then Some a else next_free r st
     | None \<Rightarrow> next_free r st)"

definition touch :: "mac \<Rightarrow> string option \<Rightarrow> real \<Rightarrow> Lease \<Rightarrow> Lease" where
  "touch m hn now l =
    (if mac_address l = m then l\<lparr> hostname := hn, allocated_at := now \<rparr> else l)"

definition find_or_allocate ::
  "int \<times> int \<Rightarrow> real \<Rightarrow> mac \<Rightarrow> int option \<Rightarrow> string option \<Rightarrow> LeaseStore
     \<Rightarrow> int option \<times> LeaseStore" where
  "find_or_allocate r now m hint hn st =
    (case get_lease st m of
       Some l \<Rightarrow> (Some (ip_address l), map (touch m hn now) st)
     | None \<Rightarrow>
        (case pick_free r hint st of
           None \<Rightarrow> (None, st)
         | Some a \<Rightarrow>
            (Some a,
             st @ [\<lparr> mac_address = m, ip_address = a, hostname = hn, allocated_at = now \<rparr>])))"

text \<open>
  A sequence of calls, each with its MAC address, hint, hostname and time, applied to a
  store from left to right.
\<close>

type_synonym call = "mac \<times> int option \<times> string option \<times> real"

fun run_calls :: "int \<times> int \<Rightarrow> call list \<Rightarrow> LeaseStore \<Rightarrow> LeaseStore" where
  "run_calls r [] st = st"
| "run_calls r ((m, hint, hn, now) # cs) st =
     run_calls r cs (snd (find_or_allocate r now m hint hn st))"

text \<open>The map from MAC address to IP address over the leases held.\<close>

definition lease_ip :: "LeaseStore \<Rightarrow> mac \<Rightarrow> int option" where
  "lease_ip st m = map_option ip_address (get_lease st m)"

section \<open>Example values\<close>

text \<open>
  A store that only records the arguments of every \<open>find_or_register\<close> call and
  answers each with a fixed value; its \<open>get\<close> answers with a fixed host.
\<close>

definition recording_db ::
  "pyval \<Rightarrow> Host option \<Rightarrow> ((mac \<times> pyval \<times> pyval) list) HostDatabase" where
  "recording_db answer held =
    \<lparr> find_or_register = (\<lambda>m req_ip hn calls. (answer, calls @ [(m, req_ip, hn)])),
      get = (\<lambda>m calls. (held, calls)) \<rparr>"

definition example_server :: "'h \<Rightarrow> 'h DHCPServer" where
  "example_server h =
    \<lparr> conf_options = [], conf_dhcp_server_ip = PAddr (ipv4 10 47 0 254), hosts = h, sent = [] \<rparr>"

text \<open>A client packet of the given message type, from the given MAC, with further options.\<close>

definition client_packet :: "string \<Rightarrow> mac \<Rightarrow> OptionList \<Rightarrow> DHCPPacket" where
  "client_packet ty m opts =
    \<lparr> op = ''BOOTREQUEST'', xid = 1, secs = 0,
      ciaddr = PAddr 0, yiaddr = PAddr 0, siaddr = PAddr 0, giaddr = PAddr 0,
      chaddr = m,
      options = short_value_to_object 53 ''dhcp_message_type'' (PStr ty) # opts \<rparr>"

text \<open>
  A configuration without server address (the default of the dataclass), on network
  10.47.0.0/24 with the range [10.47.0.1, 10.47.0.254].
\<close>

definition no_server_ip_conf :: DHCPServerConfiguration where
  "no_server_ip_conf =
    scenario_A_conf\<lparr> dhcp_range := (ipv4 10 47 0 1, ipv4 10 47 0 254), server_ip := None \<rparr>"

section \<open>Properties of the configuration\<close>

text \<open>
  C2.  The configuration's membership check \<open>in_range\<close>, documented as checking that an
  address is in the DHCP range, tests membership in the network instead: in the
  configuration of Scenario A it accepts 10.47.0.200, which lies outside the allocation
  range [10.47.0.1, 10.47.0.2].
\<close>

theorem in_range_accepts_address_outside_range:
  "in_range scenario_A_conf (ipv4 10 47 0 200) = Inr True
   \<and> \<not> (fst (dhcp_range scenario_A_conf) \<le> ipv4 10 47 0 200
        \<and> ipv4 10 47 0 200 \<le> snd (dhcp_range scenario_A_conf))"
  by (simp add: in_range_def scenario_A_conf_def net_contains_def netmask_def ipv4_def)

text \<open>
  The two-address range of Scenario A, with a server address and a router inside the
  network, is rejected by \<open>check\<close>: \<open>dhcp_range_len\<close> is the difference of the
  endpoints, 1 for two addresses.
\<close>

lemma check_scenario_A_rejected:
  "check scenario_A_conf = Inl InvalidDHCPConfiguration"
  by (simp add: check_def scenario_A_conf_def net_contains_def netmask_def ipv4_def
      IPv4Address_def dhcp_range_len_def)

text \<open>
  C3, as stated, fails: a configuration whose range endpoints lie inside the network and
  whose range holds 254 addresses, but which has no server address, is rejected.
\<close>

theorem check_rejects_without_server_ip:
  "net_contains (network no_server_ip_conf) (fst (dhcp_range no_server_ip_conf))
   \<and> net_contains (network no_server_ip_conf) (snd (dhcp_range no_server_ip_conf))
   \<and> 2 \<le> snd (dhcp_range no_server_ip_conf) - fst (dhcp_range no_server_ip_conf) + 1
   \<and> check no_server_ip_conf = Inl InvalidDHCPConfiguration"
  by (simp add: no_server_ip_conf_def check_def scenario_A_conf_def net_contains_def
      netmask_def ipv4_def)

text \<open>
  C3, amended.  \<open>check\<close> succeeds for every configuration that has a server address,
  whose router is a valid address, whose range endpoints are 32-bit addresses inside the
  network, and whose range spans at least three addresses (end - start at least 2).  It
  raises \<open>InvalidDHCPConfiguration\<close> when the server address is missing, and when the
  endpoints are 32-bit addresses of which one lies outside the network or which hold
  fewer than two addresses (end at most start).
\<close>

theorem check_outcome:
  "(server_ip c \<noteq> None \<and> router c \<noteq> None
     \<and> 0 \<le> fst (dhcp_range c) \<and> fst (dhcp_range c) < 2 ^ 32
     \<and> 0 \<le> snd (dhcp_range c) \<and> snd (dhcp_range c) < 2 ^ 32
     \<and> net_contains (network c) (fst (dhcp_range c))
     \<and> net_contains (network c) (snd (dhcp_range c))
     \<and> 2 \<le> snd (dhcp_range c) - fst (dhcp_range c)
    \<longrightarrow> check c = Inr ())
   \<and> (server_ip c = None
       \<or> (0 \<le> fst (dhcp_range c) \<and> fst (dhcp_range c) < 2 ^ 32
          \<and> 0 \<le> snd (dhcp_range c) \<and> snd (dhcp_range c) < 2 ^ 32
          \<and> (\<not> net_contains (network c) (fst (dhcp_range c))
              \<or> \<not> net_contains (network c) (snd (dhcp_range c))
              \<or> snd (dhcp_range c) \<le> fst (dhcp_range c)))
    \<longrightarrow> check c = Inl InvalidDHCPConfiguration)"
  by (auto simp: check_def IPv4Address_def dhcp_range_len_def split: option.splits)

theorem check_outcome_witness:
  "check (scenario_A_conf\<lparr> dhcp_range := (ipv4 10 47 0 1, ipv4 10 47 0 3) \<rparr>) = Inr ()
   \<and> check (scenario_A_conf\<lparr> dhcp_range := (ipv4 10 47 0 1, ipv4 10 48 0 3) \<rparr>)
       = Inl InvalidDHCPConfiguration
   \<and> check (scenario_A_conf\<lparr> dhcp_range := (ipv4 10 47 0 7, ipv4 10 47 0 7) \<rparr>)
       = Inl InvalidDHCPConfiguration"
  using check_outcome [of "scenario_A_conf\<lparr> dhcp_range := (ipv4 10 47 0 1, ipv4 10 47 0 3) \<rparr>"]
    check_outcome [of "scenario_A_conf\<lparr> dhcp_range := (ipv4 10 47 0 1, ipv4 10 48 0 3) \<rparr>"]
    check_outcome [of "scenario_A_conf\<lparr> dhcp_range := (ipv4 10 47 0 7, ipv4 10 47 0 7) \<rparr>"]
  by (simp add: scenario_A_conf_def net_contains_def netmask_def ipv4_def)

section \<open>Properties of the session\<close>

lemma broadcast_reply:
  "broadcast ((reply_packet ty m sec x yi ol)\<lparr> siaddr := a \<rparr>) srv
     = Inr (srv\<lparr> sent := sent srv @ [(reply_packet ty m sec x yi ol)\<lparr> siaddr := a \<rparr>] \<rparr>)"
  by (simp add: broadcast_def reply_packet_def by_code_def short_value_to_object_def)

lemma reply_packet_fields:
  "message_type ((reply_packet ty m sec x yi ol)\<lparr> siaddr := a \<rparr>) = PStr ty"
  "yiaddr ((reply_packet ty m sec x yi ol)\<lparr> siaddr := a \<rparr>) = yi"
  "chaddr ((reply_packet ty m sec x yi ol)\<lparr> siaddr := a \<rparr>) = m"
  "xid ((reply_packet ty m sec x yi ol)\<lparr> siaddr := a \<rparr>) = x"
  by (simp_all add: reply_packet_def message_type_def by_code_def short_value_to_object_def
      dict_get_def)

lemma send_nak_eq:
  "send_nak now s packet srv
     = Inr (srv\<lparr> sent := sent srv @ [nak_packet now s packet (conf_dhcp_server_ip srv)] \<rparr>)"
  by (simp add: send_nak_def nak_packet_def broadcast_def Ack_def reply_packet_def by_code_def
      short_value_to_object_def)

lemma nak_packet_fields:
  "message_type (nak_packet now s packet a) = PStr ''DHCPNAK''"
  "chaddr (nak_packet now s packet a) = chaddr packet"
  "xid (nak_packet now s packet a) = xid packet"
  by (simp_all add: nak_packet_def message_type_def by_code_def short_value_to_object_def
      dict_get_def Ack_def reply_packet_def)

lemma getitem_other:
  "x \<noteq> PStr ''DHCPDISCOVER'' \<Longrightarrow> x \<noteq> PStr ''DHCPREQUEST'' \<Longrightarrow>
   DHCPMessages_getitem x \<noteq> Some DHCPDISCOVER \<and> DHCPMessages_getitem x \<noteq> Some DHCPREQUEST"
  by (simp add: DHCPMessages_getitem_def)

lemma getitem_discover: "DHCPMessages_getitem (PStr ''DHCPDISCOVER'') = Some DHCPDISCOVER"
  by (simp add: DHCPMessages_getitem_def)

lemma getitem_request: "DHCPMessages_getitem (PStr ''DHCPREQUEST'') = Some DHCPREQUEST"
  by (simp add: DHCPMessages_getitem_def)

lemma message_type_Str:
  assumes "message_type packet = PStr n"
  shows "\<exists>v. by_code 53 (options packet) = Some v
             \<and> map_of v ''dhcp_message_type'' = Some (PStr n)"
  using assms by (simp add: message_type_def dict_get_def split: option.splits)

lemma receive_discover:
  assumes "\<not> closed_flag s" and "op packet = ''BOOTREQUEST''"
    and "message_type packet = PStr ''DHCPDISCOVER''"
  shows "receive db now s packet srv
     = map_sum id (\<lambda>srv1. (srv1, s)) (send_offer db now s packet srv)"
proof -
  from message_type_Str [OF assms(3)] obtain v where
    "by_code 53 (options packet) = Some v"
    "map_of v ''dhcp_message_type'' = Some (PStr ''DHCPDISCOVER'')"
    by blast
  with assms(1,2) show ?thesis
    by (simp add: receive_def getitem_discover)
qed

lemma receive_request:
  assumes "\<not> closed_flag s" and "op packet = ''BOOTREQUEST''"
    and "message_type packet = PStr ''DHCPREQUEST''"
  shows "receive db now s packet srv
     = map_sum id (\<lambda>srv1. (srv1, s)) (send_ack db now s packet srv)"
proof -
  from message_type_Str [OF assms(3)] obtain v where
    "by_code 53 (options packet) = Some v"
    "map_of v ''dhcp_message_type'' = Some (PStr ''DHCPREQUEST'')"
    by blast
  with assms(1,2) show ?thesis
    by (simp add: receive_def getitem_request)
qed

text \<open>A client message without option 53 makes \<open>receive\<close> raise.\<close>

lemma receive_without_message_type:
  assumes "\<not> closed_flag s" and "op packet = ''BOOTREQUEST''"
    and "by_code 53 (options packet) = None"
  shows "receive db now s packet srv = Inl AttributeError"
  using assms by (simp add: receive_def)

lemma send_ack_no_host:
  assumes "get db (chaddr packet) (hosts srv) = (None, h)"
  shows "send_ack db now s packet srv
     = Inr (srv\<lparr> hosts := h,
                sent := sent srv @ [nak_packet now s packet (conf_dhcp_server_ip srv)] \<rparr>)"
  using assms by (simp add: send_ack_def send_nak_eq)

lemma send_ack_mismatch:
  assumes "get db (chaddr packet) (hosts srv) = (Some hst, h)"
    and "by_code 50 (options packet) = Some v"
    and "dict_get v ''requested_ip_address'' \<noteq> ip hst"
  shows "send_ack db now s packet srv
     = Inr (srv\<lparr> hosts := h,
                sent := sent srv @ [nak_packet now s packet (conf_dhcp_server_ip srv)] \<rparr>)"
  using assms by (auto simp: send_ack_def send_nak_eq)

lemma send_ack_match:
  assumes "get db (chaddr packet) (hosts srv) = (Some hst, h)"
    and "by_code 50 (options packet) = None
         \<or> (\<exists>v. by_code 50 (options packet) = Some v
                 \<and> dict_get v ''requested_ip_address'' = ip hst)"
  shows "send_ack db now s packet srv
     = Inr (srv\<lparr> hosts := h,
                sent := sent srv @
                  [(Ack (chaddr packet) (py_int (now - start s)) (xid packet) (ip hst)
                      (conf_options srv))\<lparr> siaddr := conf_dhcp_server_ip srv \<rparr>] \<rparr>)"
  using assms by (auto simp: send_ack_def Ack_def broadcast_reply)

text \<open>
  C1.  An open session that receives a Request looks the MAC address up in the lease
  store.  Without a lease it broadcasts a Nak; with a lease and a requested-IP option
  whose value differs from the leased IP it broadcasts a Nak; otherwise it broadcasts an
  Ack whose \<open>yiaddr\<close> is the leased IP.  In each case exactly one packet is broadcast
  and no exception is raised.
\<close>

theorem request_yields_ack_or_nak:
  assumes "\<not> closed_flag s" and "op packet = ''BOOTREQUEST''"
    and "message_type packet = PStr ''DHCPREQUEST''"
    and "get db (chaddr packet) (hosts srv) = (host, h)"
  shows "(host = None \<longrightarrow>
            (\<exists>p. receive db now s packet srv
                    = Inr (srv\<lparr> hosts := h, sent := sent srv @ [p] \<rparr>, s)
                \<and> message_type p = PStr ''DHCPNAK''))
       \<and> (\<forall>hst v. host = Some hst \<and> by_code 50 (options packet) = Some v
              \<and> dict_get v ''requested_ip_address'' \<noteq> ip hst \<longrightarrow>
            (\<exists>p. receive db now s packet srv
                    = Inr (srv\<lparr> hosts := h, sent := sent srv @ [p] \<rparr>, s)
                \<and> message_type p = PStr ''DHCPNAK''))
       \<and> (\<forall>hst. host = Some hst
              \<and> (by_code 50 (options packet) = None
                  \<or> (\<exists>v. by_code 50 (options packet) = Some v
                          \<and> dict_get v ''requested_ip_address'' = ip hst)) \<longrightarrow>
            (\<exists>p. receive db now s packet srv
                    = Inr (srv\<lparr> hosts := h, sent := sent srv @ [p] \<rparr>, s)
                \<and> message_type p = PStr ''DHCPACK'' \<and> yiaddr p = ip hst
                \<and> chaddr p = chaddr packet \<and> xid p = xid packet))"
proof -
  note r = receive_request [OF assms(1-3), of db now srv]
  let ?nak = "nak_packet now s packet (conf_dhcp_server_ip srv)"
  have no_host: "receive db now s packet srv
      = Inr (srv\<lparr> hosts := h, sent := sent srv @ [?nak] \<rparr>, s)"
    if "host = None"
    using that assms(4) by (simp add: r send_ack_no_host)
  have mismatch: "receive db now s packet srv
      = Inr (srv\<lparr> hosts := h, sent := sent srv @ [?nak] \<rparr>, s)"
    if "host = Some hst" "by_code 50 (options packet) = Some v"
      "dict_get v ''requested_ip_address'' \<noteq> ip hst" for hst v
    using that assms(4) by (simp add: r send_ack_mismatch)
  have match: "receive db now s packet srv
      = Inr (srv\<lparr> hosts := h, sent := sent srv @
               [(Ack (chaddr packet) (py_int (now - start s)) (xid packet) (ip hst)
                  (conf_options srv))\<lparr> siaddr := conf_dhcp_server_ip srv \<rparr>] \<rparr>, s)"
    if "host = Some hst"
      "by_code 50 (options packet) = None
       \<or> (\<exists>v. by_code 50 (options packet) = Some v
               \<and> dict_get v ''requested_ip_address'' = ip hst)" for hst
  proof -
    from that(1) assms(4) have "get db (chaddr packet) (hosts srv) = (Some hst, h)"
      by simp
    from send_ack_match [OF this that(2)] show ?thesis
      by (simp add: r)
  qed
  show ?thesis
  proof (intro conjI allI impI)
    assume "host = None"
    from no_host [OF this] show "\<exists>p. receive db now s packet srv
        = Inr (srv\<lparr> hosts := h, sent := sent srv @ [p] \<rparr>, s)
        \<and> message_type p = PStr ''DHCPNAK''"
      by (intro exI [of _ ?nak] conjI nak_packet_fields)
  next
    fix hst v
    assume "host = Some hst \<and> by_code 50 (options packet) = Some v
      \<and> dict_get v ''requested_ip_address'' \<noteq> ip hst"
    then have "receive db now s packet srv
        = Inr (srv\<lparr> hosts := h, sent := sent srv @ [?nak] \<rparr>, s)"
      using mismatch by blast
    then show "\<exists>p. receive db now s packet srv
        = Inr (srv\<lparr> hosts := h, sent := sent srv @ [p] \<rparr>, s)
        \<and> message_type p = PStr ''DHCPNAK''"
      by (intro exI [of _ ?nak] conjI nak_packet_fields)
  next
    fix hst
    assume a: "host = Some hst
      \<and> (by_code 50 (options packet) = None
          \<or> (\<exists>v. by_code 50 (options packet) = Some v
                  \<and> dict_get v ''requested_ip_address'' = ip hst))"
    let ?ack = "(Ack (chaddr packet) (py_int (now - start s)) (xid packet) (ip hst)
                  (conf_options srv))\<lparr> siaddr := conf_dhcp_server_ip srv \<rparr>"
    from a have "receive db now s packet srv
        = Inr (srv\<lparr> hosts := h, sent := sent srv @ [?ack] \<rparr>, s)"
      using match by blast
    then show "\<exists>p. receive db now s packet srv
        = Inr (srv\<lparr> hosts := h, sent := sent srv @ [p] \<rparr>, s)
        \<and> message_type p = PStr ''DHCPACK'' \<and> yiaddr p = ip hst
        \<and> chaddr p = chaddr packet \<and> xid p = xid packet"
      by (intro exI [of _ ?ack] conjI) (simp_all add: Ack_def reply_packet_fields)
  qed
qed

theorem request_yields_ack_or_nak_witness:
  "(\<exists>p. receive (recording_db (PInt 0) None) 5 (Session_init 0 0)
            (client_packet ''DHCPREQUEST'' ''aa:aa:aa:aa:aa:01'' []) (example_server [])
          = Inr ((example_server [])\<lparr> hosts := [], sent := [p] \<rparr>,
                 Session_init 0 0)
        \<and> message_type p = PStr ''DHCPNAK'')
   \<and> (\<exists>p. receive (recording_db (PInt 0) (Some \<lparr> ip = PAddr 7 \<rparr>)) 5 (Session_init 0 0)
            (client_packet ''DHCPREQUEST'' ''aa:aa:aa:aa:aa:01''
               [(50, [(''requested_ip_address'', PAddr 9)])]) (example_server [])
          = Inr ((example_server [])\<lparr> hosts := [], sent := [p] \<rparr>,
                 Session_init 0 0)
        \<and> message_type p = PStr ''DHCPNAK'')
   \<and> (\<exists>p. receive (recording_db (PInt 0) (Some \<lparr> ip = PAddr 7 \<rparr>)) 5 (Session_init 0 0)
            (client_packet ''DHCPREQUEST'' ''aa:aa:aa:aa:aa:01''
               [(50, [(''requested_ip_address'', PAddr 7)])]) (example_server [])
          = Inr ((example_server [])\<lparr> hosts := [], sent := [p] \<rparr>,
                 Session_init 0 0)
        \<and> message_type p = PStr ''DHCPACK'' \<and> yiaddr p = PAddr 7)"
proof -
  let ?s = "Session_init 0 0"
  let ?srv = "example_server ([] :: (mac \<times> pyval \<times> pyval) list)"
  let ?p0 = "client_packet ''DHCPREQUEST'' ''aa:aa:aa:aa:aa:01'' []"
  let ?p9 = "client_packet ''DHCPREQUEST'' ''aa:aa:aa:aa:aa:01''
               [(50, [(''requested_ip_address'', PAddr 9)])]"
  let ?p7 = "client_packet ''DHCPREQUEST'' ''aa:aa:aa:aa:aa:01''
               [(50, [(''requested_ip_address'', PAddr 7)])]"
  let ?h = "\<lparr> ip = PAddr 7 \<rparr>"
  have o: "\<not> closed_flag ?s"
    by (simp add: Session_init_def)
  have b: "op (client_packet ty m opts) = ''BOOTREQUEST''" for ty m opts
    by (simp add: client_packet_def)
  have t: "message_type (client_packet ty m opts) = PStr ty" for ty m opts
    by (simp add: client_packet_def message_type_def by_code_def short_value_to_object_def
        dict_get_def)
  have g: "get (recording_db a held) (chaddr pk) (hosts ?srv) = (held, [])" for a held pk
    by (simp add: recording_db_def example_server_def)
  have o9: "by_code 50 (options ?p9) = Some [(''requested_ip_address'', PAddr 9)]"
    by (simp add: client_packet_def by_code_def short_value_to_object_def)
  have o7: "by_code 50 (options ?p7) = Some [(''requested_ip_address'', PAddr 7)]"
    by (simp add: client_packet_def by_code_def short_value_to_object_def)
  have d9: "dict_get [(''requested_ip_address'', PAddr 9)] ''requested_ip_address'' \<noteq> ip ?h"
    by (simp add: dict_get_def)
  have d7: "dict_get [(''requested_ip_address'', PAddr 7)] ''requested_ip_address'' = ip ?h"
    by (simp add: dict_get_def)
  from request_yields_ack_or_nak [OF o b t g [of "PInt 0" None ?p0], where now = 5]
  have 1: "\<exists>p. receive (recording_db (PInt 0) None) 5 ?s ?p0 ?srv
          = Inr (?srv\<lparr> hosts := [], sent := sent ?srv @ [p] \<rparr>, ?s)
        \<and> message_type p = PStr ''DHCPNAK''"
    by simp
  from request_yields_ack_or_nak [OF o b t g [of "PInt 0" "Some ?h" ?p9], where now = 5] o9 d9
  have 2: "\<exists>p. receive (recording_db (PInt 0) (Some ?h)) 5 ?s ?p9 ?srv
          = Inr (?srv\<lparr> hosts := [], sent := sent ?srv @ [p] \<rparr>, ?s)
        \<and> message_type p = PStr ''DHCPNAK''"
    by blast
  from request_yields_ack_or_nak [OF o b t g [of "PInt 0" "Some ?h" ?p7], where now = 5] o7 d7
  have 3: "\<exists>p. receive (recording_db (PInt 0) (Some ?h)) 5 ?s ?p7 ?srv
          = Inr (?srv\<lparr> hosts := [], sent := sent ?srv @ [p] \<rparr>, ?s)
        \<and> message_type p = PStr ''DHCPACK'' \<and> yiaddr p = PAddr 7"
    by force
  have "sent ?srv = []"
    by (simp add: example_server_def)
  with 1 2 3 show ?thesis by simp
qed

text \<open>
  C6.  When the lease store answers a Discover with 0 (no free address), the session
  broadcasts nothing and returns normally: the list of broadcast packets is unchanged
  and only the store's state is the one the store returned.
\<close>

theorem discover_exhausted_no_reply:
  assumes "\<not> closed_flag s" and "op packet = ''BOOTREQUEST''"
    and "message_type packet = PStr ''DHCPDISCOVER''"
    and "find_or_register db (chaddr packet)
           (case by_code 50 (options packet) of
              Some v \<Rightarrow> dict_get v ''requested_ip_address''
            | None \<Rightarrow> ciaddr packet)
           (offer_hostname packet) (hosts srv) = (PInt 0, h)"
  shows "receive db now s packet srv = Inr (srv\<lparr> hosts := h \<rparr>, s)
       \<and> sent (srv\<lparr> hosts := h \<rparr>) = sent srv"
  using assms(4)
  by (simp add: receive_discover [OF assms(1-3)] send_offer_def)

theorem discover_exhausted_no_reply_witness:
  "receive (recording_db (PInt 0) None) 5 (Session_init 0 0)
      (client_packet ''DHCPDISCOVER'' ''aa:aa:aa:aa:aa:03'' []) (example_server [])
    = Inr ((example_server [])\<lparr> hosts := [(''aa:aa:aa:aa:aa:03'', PAddr 0, PNone)] \<rparr>,
           Session_init 0 0)
   \<and> sent ((example_server [])\<lparr> hosts := [(''aa:aa:aa:aa:aa:03'', PAddr 0, PNone)] \<rparr>) = []"
proof -
  let ?s = "Session_init 0 0"
  let ?srv = "example_server ([] :: (mac \<times> pyval \<times> pyval) list)"
  let ?pk = "client_packet ''DHCPDISCOVER'' ''aa:aa:aa:aa:aa:03'' []"
  have o: "\<not> closed_flag ?s"
    by (simp add: Session_init_def)
  have b: "op ?pk = ''BOOTREQUEST''"
    by (simp add: client_packet_def)
  have t: "message_type ?pk = PStr ''DHCPDISCOVER''"
    by (simp add: client_packet_def message_type_def by_code_def short_value_to_object_def
        dict_get_def)
  have f: "find_or_register (recording_db (PInt 0) None) (chaddr ?pk)
           (case by_code 50 (options ?pk) of
              Some v \<Rightarrow> dict_get v ''requested_ip_address''
            | None \<Rightarrow> ciaddr ?pk)
           (offer_hostname ?pk) (hosts ?srv) = (PInt 0, [(''aa:aa:aa:aa:aa:03'', PAddr 0, PNone)])"
    by (simp add: recording_db_def client_packet_def by_code_def short_value_to_object_def
        offer_hostname_def example_server_def)
  from discover_exhausted_no_reply [OF o b t f, of 5] show ?thesis
    by (simp add: example_server_def)
qed

text \<open>
  C7.  A client message whose message type is neither Discover nor Request (Decline,
  Release, Inform, Offer, Ack, Nak, or a name that is no message type at all) leaves the
  server and the session as they were: nothing is broadcast, the lease store is not
  called, and no exception is raised.
\<close>

theorem other_types_ignored:
  assumes "by_code 53 (options packet) = Some v"
    and "dict_get v ''dhcp_message_type'' \<noteq> PStr ''DHCPDISCOVER''"
    and "dict_get v ''dhcp_message_type'' \<noteq> PStr ''DHCPREQUEST''"
  shows "receive db now s packet srv = Inr (srv, s)"
proof (cases "map_of v ''dhcp_message_type''")
  case None
  with assms(1) show ?thesis by (simp add: receive_def)
next
  case (Some name)
  then have "dict_get v ''dhcp_message_type'' = name"
    by (simp add: dict_get_def)
  with assms(2,3) have "DHCPMessages_getitem name \<noteq> Some DHCPDISCOVER"
    and "DHCPMessages_getitem name \<noteq> Some DHCPREQUEST"
    using getitem_other [of name] by simp_all
  with assms(1) Some show ?thesis
    by (simp add: receive_def split: option.split DHCPMessages.split)
qed

theorem other_types_ignored_witness:
  "receive (recording_db (PAddr 7) None) 5 (Session_init 0 0)
      (client_packet ''DHCPRELEASE'' ''aa:aa:aa:aa:aa:01'' []) (example_server [])
    = Inr (example_server [], Session_init 0 0)
   \<and> receive (recording_db (PAddr 7) None) 5 (Session_init 0 0)
      (client_packet ''BOGUS'' ''aa:aa:aa:aa:aa:01'' []) (example_server [])
    = Inr (example_server [], Session_init 0 0)"
proof -
  have c: "by_code 53 (options (client_packet ty m [])) = Some [(''dhcp_message_type'', PStr ty)]"
    for ty m
    by (simp add: client_packet_def by_code_def short_value_to_object_def)
  have r1: "dict_get [(''dhcp_message_type'', PStr ''DHCPRELEASE'')] ''dhcp_message_type''
      \<noteq> PStr ''DHCPDISCOVER''"
    and r2: "dict_get [(''dhcp_message_type'', PStr ''DHCPRELEASE'')] ''dhcp_message_type''
      \<noteq> PStr ''DHCPREQUEST''"
    and b1: "dict_get [(''dhcp_message_type'', PStr ''BOGUS'')] ''dhcp_message_type''
      \<noteq> PStr ''DHCPDISCOVER''"
    and b2: "dict_get [(''dhcp_message_type'', PStr ''BOGUS'')] ''dhcp_message_type''
      \<noteq> PStr ''DHCPREQUEST''"
    by (simp_all add: dict_get_def)
  from other_types_ignored [OF c r1 r2] other_types_ignored [OF c b1 b2]
  show ?thesis by blast
qed

text \<open>
  C9.  A closed session is terminal: \<open>receive\<close> returns at once, whatever the packet
  and whatever the lease store, with the server (its store and its broadcast packets)
  and the session unchanged.
\<close>

theorem closed_session_ignores:
  assumes "closed_flag s"
  shows "receive db now s packet srv = Inr (srv, s)"
  using assms by (simp add: receive_def)

theorem closed_session_ignores_witness:
  "receive (recording_db (PAddr 7) None) 5 (close (Session_init 0 0))
      (client_packet ''DHCPDISCOVER'' ''aa:aa:aa:aa:aa:01'' []) (example_server [])
    = Inr (example_server [], close (Session_init 0 0))"
proof -
  have "closed_flag (close (Session_init 0 0))"
    by (simp add: close_def)
  then show ?thesis by (rule closed_session_ignores)
qed

text \<open>
  C10.  The hint \<open>send_offer\<close> passes to the lease store is the packet's \<open>ciaddr\<close> when
  the packet has no option 50, and the value of option 50 when it has one: the store's
  state after \<open>send_offer\<close> is the one \<open>find_or_register\<close> returns for that hint.
\<close>

theorem offer_hint_source:
  "(by_code 50 (options packet) = None \<longrightarrow>
      (\<exists>srv1. send_offer db now s packet srv = Inr srv1
         \<and> hosts srv1 = snd (find_or_register db (chaddr packet) (ciaddr packet)
                               (offer_hostname packet) (hosts srv))))
   \<and> (\<forall>v. by_code 50 (options packet) = Some v \<longrightarrow>
      (\<exists>srv1. send_offer db now s packet srv = Inr srv1
         \<and> hosts srv1 = snd (find_or_register db (chaddr packet)
                               (dict_get v ''requested_ip_address'')
                               (offer_hostname packet) (hosts srv))))"
  by (simp add: send_offer_def Let_def Offer_def broadcast_reply split: prod.split)

theorem offer_hint_source_witness:
  "(\<exists>srv1. send_offer (recording_db (PAddr 7) None) 5 (Session_init 0 0)
             (client_packet ''DHCPDISCOVER'' ''aa:aa:aa:aa:aa:01'' []) (example_server [])
           = Inr srv1
        \<and> hosts srv1 = [(''aa:aa:aa:aa:aa:01'', PAddr 0, PNone)])
   \<and> (\<exists>srv1. send_offer (recording_db (PAddr 7) None) 5 (Session_init 0 0)
             (client_packet ''DHCPDISCOVER'' ''aa:aa:aa:aa:aa:01''
                [(50, [(''requested_ip_address'', PStr ''10.47.0.9'')])]) (example_server [])
           = Inr srv1
        \<and> hosts srv1 = [(''aa:aa:aa:aa:aa:01'', PStr ''10.47.0.9'', PNone)])"
proof -
  let ?db = "recording_db (PAddr 7) None"
  let ?srv = "example_server ([] :: (mac \<times> pyval \<times> pyval) list)"
  let ?p0 = "client_packet ''DHCPDISCOVER'' ''aa:aa:aa:aa:aa:01'' []"
  let ?p9 = "client_packet ''DHCPDISCOVER'' ''aa:aa:aa:aa:aa:01''
                [(50, [(''requested_ip_address'', PStr ''10.47.0.9'')])]"
  have n: "by_code 50 (options ?p0) = None"
    by (simp add: client_packet_def by_code_def short_value_to_object_def)
  have v: "by_code 50 (options ?p9) = Some [(''requested_ip_address'', PStr ''10.47.0.9'')]"
    by (simp add: client_packet_def by_code_def short_value_to_object_def)
  have f: "snd (find_or_register ?db (chaddr (client_packet ty m opts)) x
                 (offer_hostname (client_packet ty m [])) (hosts ?srv)) = [(m, x, PNone)]"
    for ty m opts x
    by (simp add: recording_db_def client_packet_def offer_hostname_def by_code_def
        short_value_to_object_def example_server_def)
  have h9: "offer_hostname ?p9 = offer_hostname ?p0"
    by (simp add: client_packet_def offer_hostname_def by_code_def short_value_to_object_def)
  have c: "ciaddr ?p0 = PAddr 0"
    by (simp add: client_packet_def)
  have d: "dict_get [(''requested_ip_address'', PStr ''10.47.0.9'')] ''requested_ip_address''
      = PStr ''10.47.0.9''"
    by (simp add: dict_get_def)
  from offer_hint_source [of ?p0 ?db 5 "Session_init 0 0" ?srv] n
  have 1: "\<exists>srv1. send_offer ?db 5 (Session_init 0 0) ?p0 ?srv = Inr srv1
        \<and> hosts srv1 = [(''aa:aa:aa:aa:aa:01'', PAddr 0, PNone)]"
    by (simp add: f c)
  from offer_hint_source [of ?p9 ?db 5 "Session_init 0 0" ?srv] v
  have 2: "\<exists>srv1. send_offer ?db 5 (Session_init 0 0) ?p9 ?srv = Inr srv1
        \<and> hosts srv1 = [(''aa:aa:aa:aa:aa:01'', PStr ''10.47.0.9'', PNone)]"
    by (simp add: f h9 d)
  from 1 2 show ?thesis by blast
qed

section \<open>Properties of the sweep\<close>

text \<open>
  C8, as stated, fails: a session created at time 0 and never closed is still in the
  table after a sweep at time 30, since \<open>is_done\<close> asks for a deadline strictly in
  the past.
\<close>

theorem sweep_at_deadline_keeps:
  "(0 :: real) + 30 \<le> 30
   \<and> \<not> closed_flag (Session_init 0 0)
   \<and> sweep (\<lambda>k. 30) (Map.empty (7 \<mapsto> Session_init 0 0)) 7 = Some (Session_init 0 0)"
  by (simp add: sweep_def is_done_def Session_init_def)

text \<open>
  C8, amended.  A session's deadline is the clock reading at its creation plus 30
  seconds.  Every sweep whose clock reading is strictly later than that deadline removes
  the session, and every sweep removes a closed session; a session that a sweep leaves
  in the table is open and its deadline is not earlier than the sweep's reading.
\<close>

theorem sweep_removes_expired:
  "timeout (Session_init t0 t) = t + 30
   \<and> (ss k = Some s \<and> timeout s = t + 30 \<and> t + 30 < clk k \<longrightarrow> sweep clk ss k = None)
   \<and> (ss k = Some s \<and> closed_flag s \<longrightarrow> sweep clk ss k = None)
   \<and> (sweep clk ss k = Some s \<longrightarrow>
         ss k = Some s \<and> \<not> closed_flag s \<and> clk k \<le> timeout s)"
  by (auto simp: sweep_def is_done_def Session_init_def split: option.splits if_splits)

theorem sweep_removes_expired_witness:
  "timeout (Session_init 0 0) = 30
   \<and> sweep (\<lambda>k. 31) (Map.empty (7 \<mapsto> Session_init 0 0)) 7 = None
   \<and> sweep (\<lambda>k. 1) (Map.empty (7 \<mapsto> close (Session_init 0 0))) 7 = None"
  using sweep_removes_expired [of 0 0 "Map.empty (7 \<mapsto> Session_init 0 0)" 7
      "Session_init 0 0" "\<lambda>k. 31"]
    sweep_removes_expired [of 0 0 "Map.empty (7 \<mapsto> close (Session_init 0 0))" 7
      "close (Session_init 0 0)" "\<lambda>k. 1"]
  by (simp add: close_def)

section \<open>Properties of the lease store\<close>

lemma touch_fields [simp]:
  "mac_address (touch m hn now l) = mac_address l"
  "ip_address (touch m hn now l) = ip_address l"
  by (simp_all add: touch_def)

lemma ip_address_touch_comp [simp]: "ip_address \<circ> touch m hn now = ip_address"
  by (rule ext) simp

lemma lease_ip_touch [simp]: "lease_ip (map (touch m hn now) st) m' = lease_ip st m'"
  by (induction st) (simp_all add: lease_ip_def get_lease_def)

lemma lease_ip_append:
  "lease_ip (st @ [l]) m =
    (case lease_ip st m of
       Some a \<Rightarrow> Some a
     | None \<Rightarrow> if mac_address l = m then Some (ip_address l) else None)"
  by (induction st) (simp_all add: lease_ip_def get_lease_def)

lemma find_or_allocate_held:
  assumes "lease_ip st m = Some a"
  shows "find_or_allocate r now m hint hn st = (Some a, map (touch m hn now) st)"
  using assms by (auto simp: find_or_allocate_def lease_ip_def)

lemma find_or_allocate_result:
  assumes "find_or_allocate r now m hint hn st = (Some a, st1)"
  shows "lease_ip st1 m = Some a"
proof (cases "get_lease st m")
  case None
  then have "lease_ip st m = None"
    by (simp add: lease_ip_def)
  with None assms show ?thesis
    by (auto simp: find_or_allocate_def lease_ip_append split: option.splits)
next
  case (Some l)
  with assms have "st1 = map (touch m hn now) st" and "ip_address l = a"
    by (simp_all add: find_or_allocate_def)
  with Some show ?thesis
    by (simp add: lease_ip_def [of st])
qed

lemma find_or_allocate_keeps:
  assumes "lease_ip st m = Some a"
  shows "lease_ip (snd (find_or_allocate r now m' hint hn st)) m = Some a"
  using assms
  by (auto simp: find_or_allocate_def lease_ip_append split: option.splits)

lemma run_calls_keeps:
  assumes "lease_ip st m = Some a"
  shows "lease_ip (run_calls r cs st) m = Some a"
  using assms
proof (induction cs arbitrary: st)
  case Nil
  then show ?case by simp
next
  case (Cons c cs)
  obtain m' hint hn now where c: "c = (m', hint, hn, now)"
    by (cases c) auto
  from Cons.prems have "lease_ip (snd (find_or_allocate r now m' hint hn st)) m = Some a"
    by (rule find_or_allocate_keeps)
  then show ?case
    unfolding c by (simp add: Cons.IH)
qed

lemma next_free_unassigned:
  "next_free r st = Some a \<Longrightarrow> \<not> assigned st a \<and> fst r \<le> a \<and> a \<le> snd r"
  by (auto simp: next_free_def find_Some_iff)

lemma pick_free_unassigned:
  "pick_free r hint st = Some a \<Longrightarrow> \<not> assigned st a \<and> fst r \<le> a \<and> a \<le> snd r"
  by (auto simp: pick_free_def split: option.splits if_splits dest: next_free_unassigned)

lemma find_or_allocate_distinct:
  assumes "distinct (map ip_address st)"
  shows "distinct (map ip_address (snd (find_or_allocate r now m hint hn st)))"
  using assms
  by (auto simp: find_or_allocate_def assigned_def split: option.splits
      dest!: pick_free_unassigned)

lemma run_calls_distinct:
  assumes "distinct (map ip_address st)"
  shows "distinct (map ip_address (run_calls r cs st))"
  using assms
proof (induction cs arbitrary: st)
  case Nil
  then show ?case by simp
next
  case (Cons c cs)
  obtain m' hint hn now where c: "c = (m', hint, hn, now)"
    by (cases c) auto
  show ?case
    unfolding c using Cons.prems by (simp add: Cons.IH find_or_allocate_distinct)
qed

lemma get_lease_SomeD: "get_lease st m = Some l \<Longrightarrow> l \<in> set st \<and> mac_address l = m"
  by (auto simp: get_lease_def find_Some_iff)

lemma distinct_ips_injective:
  assumes "distinct (map ip_address st)"
    and "lease_ip st m1 = Some a" and "lease_ip st m2 = Some a"
  shows "m1 = m2"
proof -
  from assms(2) obtain l1 where l1: "get_lease st m1 = Some l1" "ip_address l1 = a"
    by (auto simp: lease_ip_def)
  from assms(3) obtain l2 where l2: "get_lease st m2 = Some l2" "ip_address l2 = a"
    by (auto simp: lease_ip_def)
  from assms(1) have "inj_on ip_address (set st)"
    by (simp add: distinct_map)
  with l1 l2 have "l1 = l2"
    by (auto dest!: get_lease_SomeD simp: inj_on_def)
  with l1 l2 show ?thesis
    by (auto dest!: get_lease_SomeD)
qed

text \<open>
  Scenario A on the lease store: the first MAC gets 10.47.0.1, the second 10.47.0.2,
  the third nothing.
\<close>

lemma scenario_A_allocation:
  "find_or_allocate (dhcp_range scenario_A_conf) 0 ''aa:aa:aa:aa:aa:01'' None None []
     = (Some (ipv4 10 47 0 1),
        [\<lparr> mac_address = ''aa:aa:aa:aa:aa:01'', ip_address = ipv4 10 47 0 1,
            hostname = None, allocated_at = 0 \<rparr>])"
  "map ip_address (run_calls (dhcp_range scenario_A_conf)
      [(''aa:aa:aa:aa:aa:01'', None, None, 0), (''aa:aa:aa:aa:aa:02'', None, None, 1),
       (''aa:aa:aa:aa:aa:03'', None, None, 2)] [])
     = [ipv4 10 47 0 1, ipv4 10 47 0 2]"
  "map mac_address (run_calls (dhcp_range scenario_A_conf)
      [(''aa:aa:aa:aa:aa:01'', None, None, 0), (''aa:aa:aa:aa:aa:02'', None, None, 1),
       (''aa:aa:aa:aa:aa:03'', None, None, 2)] [])
     = [''aa:aa:aa:aa:aa:01'', ''aa:aa:aa:aa:aa:02'']"
  by (simp_all add: scenario_A_conf_def find_or_allocate_def get_lease_def pick_free_def
      next_free_def assigned_def ipv4_def upto.simps)

text \<open>
  C4.  Once a call of \<open>find_or_allocate\<close> for a MAC address has returned an IP, every
  later call for that MAC address, with any hint and hostname and after any further
  calls for any MAC addresses, returns the same IP, and the repeated call leaves the
  assigned addresses as they were.
\<close>

theorem find_or_allocate_idempotent:
  assumes "find_or_allocate r now m hint hn st = (Some a, st1)"
  shows "fst (find_or_allocate r now' m hint' hn' (run_calls r cs st1)) = Some a
       \<and> map ip_address (snd (find_or_allocate r now' m hint' hn' (run_calls r cs st1)))
           = map ip_address (run_calls r cs st1)"
proof -
  from assms have "lease_ip st1 m = Some a"
    by (rule find_or_allocate_result)
  then have "lease_ip (run_calls r cs st1) m = Some a"
    by (rule run_calls_keeps)
  then show ?thesis
    by (simp add: find_or_allocate_held)
qed

theorem find_or_allocate_idempotent_witness:
  "fst (find_or_allocate (dhcp_range scenario_A_conf) 9 ''aa:aa:aa:aa:aa:01''
          (Some (ipv4 10 47 0 2)) (Some ''pc'')
          (run_calls (dhcp_range scenario_A_conf) [(''aa:aa:aa:aa:aa:02'', None, None, 1)]
             [\<lparr> mac_address = ''aa:aa:aa:aa:aa:01'', ip_address = ipv4 10 47 0 1,
                 hostname = None, allocated_at = 0 \<rparr>]))
     = Some (ipv4 10 47 0 1)"
  using find_or_allocate_idempotent [OF scenario_A_allocation(1),
      of 9 "Some (ipv4 10 47 0 2)" "Some ''pc''" "[(''aa:aa:aa:aa:aa:02'', None, None, 1)]"]
  by simp

text \<open>
  C5.  Starting from a store whose leases have distinct IPs (the empty store, for one),
  after any sequence of \<open>find_or_allocate\<close> calls two distinct MAC addresses that hold
  leases hold different IPs.
\<close>

theorem leases_injective:
  assumes "distinct (map ip_address st)" and "m1 \<noteq> m2"
    and "lease_ip (run_calls r cs st) m1 = Some a"
    and "lease_ip (run_calls r cs st) m2 = Some b"
  shows "a \<noteq> b"
  using distinct_ips_injective [OF run_calls_distinct [OF assms(1)], of r cs m1 a m2] assms(2-4)
  by auto

theorem leases_injective_witness:
  "lease_ip (run_calls (dhcp_range scenario_A_conf)
      [(''aa:aa:aa:aa:aa:01'', None, None, 0), (''aa:aa:aa:aa:aa:02'', Some (ipv4 10 47 0 1), None, 1)]
      []) ''aa:aa:aa:aa:aa:01'' = Some (ipv4 10 47 0 1)
   \<and> lease_ip (run_calls (dhcp_range scenario_A_conf)
      [(''aa:aa:aa:aa:aa:01'', None, None, 0), (''aa:aa:aa:aa:aa:02'', Some (ipv4 10 47 0 1), None, 1)]
      []) ''aa:aa:aa:aa:aa:02'' = Some (ipv4 10 47 0 2)
   \<and> ipv4 10 47 0 1 \<noteq> ipv4 10 47 0 2"
proof -
  let ?st = "run_calls (dhcp_range scenario_A_conf)
      [(''aa:aa:aa:aa:aa:01'', None, None, 0), (''aa:aa:aa:aa:aa:02'', Some (ipv4 10 47 0 1), None, 1)]
      []"
  have d: "distinct (map ip_address ([] :: LeaseStore))"
    by simp
  have n: "''aa:aa:aa:aa:aa:01'' \<noteq> ''aa:aa:aa:aa:aa:02''"
    by simp
  have 1: "lease_ip ?st ''aa:aa:aa:aa:aa:01'' = Some (ipv4 10 47 0 1)"
    by (simp add: scenario_A_conf_def find_or_allocate_def get_lease_def pick_free_def
        next_free_def assigned_def ipv4_def upto.simps lease_ip_def)
  have 2: "lease_ip ?st ''aa:aa:aa:aa:aa:02'' = Some (ipv4 10 47 0 2)"
    by (simp add: scenario_A_conf_def find_or_allocate_def get_lease_def pick_free_def
        next_free_def assigned_def ipv4_def upto.simps lease_ip_def)
  from leases_injective [OF d n 1 2] 1 2 show ?thesis
    by blast
qed

end
